theory Spec2Isabelle
  imports Main
begin

unbundle bit_operations_syntax

section \<open>JavaScript values and string coercion\<close>

text \<open>
  The arguments of \<open>CryptorgApi\<close>'s methods are untyped JavaScript values. The model
  covers the primitives that reach the dispatcher: \<open>undefined\<close> (an absent argument),
  \<open>null\<close>, strings, integral numbers (the nonce is \<open>new Date().getTime()\<close>, an integral
  number of milliseconds) and plain objects of string fields (the \<open>attributes\<close> mapping
  of a POST call; its fields do not shadow \<open>toString\<close>). \<open>JNum i\<close> is the number that the
  integer literal \<open>i\<close> denotes: \<open>i\<close> itself up to \<open>2 ^ 53\<close> in magnitude, the nearest
  double beyond. A string is a list of code units below 256.
\<close>

datatype jsval =
    JUndefined
  | JNull
  | JStr string
  | JNum int
  | JObj "(string \<times> string) list"

datatype js_error = TypeError | Error string

definition digit_chars :: string where
  "digit_chars = ''0123456789''"

fun digits10 :: "nat \<Rightarrow> string" where
  "digits10 n =
     (if n < 10 then [digit_chars ! n]
      else digits10 (n div 10) @ [digit_chars ! (n mod 10)])"

declare digits10.simps [simp del]

text \<open>
  Number-to-string, for a number of integral value. Up to \<open>2 ^ 53\<close> every integer is a double
  and prints as its decimal digits. Beyond, the literal is rounded to the nearest double
  (ties to the even mantissa), and the digits printed are the shortest that read back as
  that double, the nearest to it when several do: a multiple of the largest power of ten
  that has one inside the double's rounding interval. From 22 digits on the exponent
  form is printed, and \<open>Infinity\<close> from \<open>2 ^ 1024\<close> on.
\<close>

fun bitlen :: "nat \<Rightarrow> nat" where
  "bitlen n = (if n = 0 then 0 else 1 + bitlen (n div 2))"

declare bitlen.simps [simp del]

text \<open>\<open>round_at n s\<close>: \<open>n\<close> with its lowest \<open>s\<close> bits rounded away, ties to even.\<close>

definition round_at :: "nat \<Rightarrow> nat \<Rightarrow> nat" where
  "round_at n s =
     (if s = 0 then n
      else (if 2 ^ (s - 1) < n mod 2 ^ s \<or> (n mod 2 ^ s = 2 ^ (s - 1) \<and> odd (n div 2 ^ s))
            then n div 2 ^ s + 1 else n div 2 ^ s) * 2 ^ s)"

definition round_double :: "nat \<Rightarrow> nat" where
  "round_double n = round_at n (bitlen n - 53)"

text \<open>
  The rounding interval of a double \<open>v\<close> runs half way to its neighbours, bounds included
  when the mantissa is even. \<open>lo2\<close> and \<open>hi2\<close> are twice the bounds, so that they are integers.
\<close>

definition rounds_to :: "nat \<Rightarrow> nat \<Rightarrow> bool \<Rightarrow> nat \<Rightarrow> bool" where
  "rounds_to lo2 hi2 closed c =
     (if closed then lo2 \<le> 2 * c \<and> 2 * c \<le> hi2 else lo2 < 2 * c \<and> 2 * c < hi2)"

definition zeros_ok :: "nat \<Rightarrow> nat \<Rightarrow> bool \<Rightarrow> nat \<Rightarrow> nat \<Rightarrow> bool" where
  "zeros_ok lo2 hi2 closed v z =
     (rounds_to lo2 hi2 closed (v div 10 ^ z * 10 ^ z)
      \<or> rounds_to lo2 hi2 closed (v div 10 ^ z * 10 ^ z + 10 ^ z))"

fun most_zeros :: "(nat \<Rightarrow> bool) \<Rightarrow> 'a list \<Rightarrow> nat" where
  "most_zeros ok [] = 0"
| "most_zeros ok (d # ds) =
     (if ok (Suc (length ds)) then Suc (length ds) else most_zeros ok ds)"

definition nearer :: "nat \<Rightarrow> nat \<Rightarrow> bool \<Rightarrow> nat \<Rightarrow> nat \<Rightarrow> nat \<Rightarrow> nat" where
  "nearer lo2 hi2 closed v p a =
     (if rounds_to lo2 hi2 closed a \<and> rounds_to lo2 hi2 closed (a + p)
      then (if v - a < a + p - v then a
            else if a + p - v < v - a then a + p
            else if even (a div p) then a else a + p)
      else if rounds_to lo2 hi2 closed a then a else a + p)"

definition shortest_with :: "nat \<Rightarrow> nat \<Rightarrow> bool \<Rightarrow> nat \<Rightarrow> nat \<Rightarrow> string \<times> nat" where
  "shortest_with lo2 hi2 closed v z =
     (digits10 (nearer lo2 hi2 closed v (10 ^ z) (v div 10 ^ z * 10 ^ z) div 10 ^ z), z)"

definition shortest_between :: "nat \<Rightarrow> nat \<Rightarrow> bool \<Rightarrow> nat \<Rightarrow> string \<times> nat" where
  "shortest_between lo2 hi2 closed v =
     shortest_with lo2 hi2 closed v (most_zeros (zeros_ok lo2 hi2 closed v) (digits10 v))"

definition shortest_at :: "nat \<Rightarrow> nat \<Rightarrow> string \<times> nat" where
  "shortest_at v e =
     shortest_between (2 * v - (if v div 2 ^ e = 2 ^ 52 then 2 ^ (e - 1) else 2 ^ e))
       (2 * v + 2 ^ e) (even (v div 2 ^ e)) v"

definition shortest_digits :: "nat \<Rightarrow> string \<times> nat" where
  "shortest_digits v = shortest_at v (bitlen v - 53)"

fun format_number :: "string \<times> nat \<Rightarrow> string" where
  "format_number (ds, z) =
     (if length ds + z \<le> 21 then ds @ replicate z (CHR ''0'')
      else (case ds of
              [] \<Rightarrow> []
            | [d] \<Rightarrow> d # ''e+'' @ digits10 (length ds + z - 1)
            | d # rest \<Rightarrow> d # CHR ''.'' # rest @ ''e+'' @ digits10 (length ds + z - 1)))"

definition show_double :: "nat \<Rightarrow> string" where
  "show_double v = (if 2 ^ 1024 \<le> v then ''Infinity'' else format_number (shortest_digits v))"

definition show_nat :: "nat \<Rightarrow> string" where
  "show_nat n = (if n \<le> 2 ^ 53 then digits10 n else show_double (round_double n))"

definition show_int :: "int \<Rightarrow> string" where
  \<comment> \<open>The string that JavaScript prints for the number \<open>JNum i\<close>.\<close>
  "show_int i = (if i < 0 then CHR ''-'' # show_nat (nat (- i)) else show_nat (nat i))"

fun js_to_string :: "jsval \<Rightarrow> string" where
  \<comment> \<open>The coercion that \<open>+\<close> applies to an operand when the other one is a string.\<close>
  "js_to_string JUndefined = ''undefined''"
| "js_to_string JNull = ''null''"
| "js_to_string (JStr s) = s"
| "js_to_string (JNum i) = show_int i"
| "js_to_string (JObj fields) = ''[object Object]''"

definition default_param :: "jsval \<Rightarrow> jsval \<Rightarrow> jsval" where
  \<comment> \<open>A default parameter \<open>p = d\<close>: the default replaces \<open>undefined\<close> only.\<close>
  "default_param v d = (if v = JUndefined then d else v)"

section \<open>Buffers: UTF-8 bytes, base64 and hex\<close>

definition utf8_char :: "char \<Rightarrow> nat list" where
  "utf8_char c =
     (let n = (of_char c :: nat)
      in if n < 128 then [n] else [192 + n div 64, 128 + n mod 64])"

definition utf8_encode :: "string \<Rightarrow> nat list" where
  \<comment> \<open>\<open>new Buffer(s)\<close>: the UTF-8 bytes of \<open>s\<close>.\<close>
  "utf8_encode s = concat (map utf8_char s)"

definition base64_chars :: string where
  "base64_chars = ''ABCDEFGHIJKLMNOPQRSTUVWXYZabcdefghijklmnopqrstuvwxyz0123456789+/''"

definition b64 :: "nat \<Rightarrow> char" where
  "b64 n = base64_chars ! (n mod 64)"

fun base64_encode :: "nat list \<Rightarrow> string" where
  \<comment> \<open>\<open>buf.toString('base64')\<close>: three bytes give four characters, the tail is padded.\<close>
  "base64_encode [] = []"
| "base64_encode [a] = [b64 (a div 4), b64 (a mod 4 * 16), CHR ''='', CHR ''='']"
| "base64_encode [a, b] =
     [b64 (a div 4), b64 (a mod 4 * 16 + b div 16), b64 (b mod 16 * 4), CHR ''='']"
| "base64_encode (a # b # c # rest) =
     [b64 (a div 4), b64 (a mod 4 * 16 + b div 16), b64 (b mod 16 * 4 + c div 64), b64 (c mod 64)]
       @ base64_encode rest"

definition hex_chars :: string where
  "hex_chars = ''0123456789abcdef''"

definition hex_byte :: "nat \<Rightarrow> string" where
  "hex_byte b = [hex_chars ! (b div 16 mod 16), hex_chars ! (b mod 16)]"

definition hex_encode :: "nat list \<Rightarrow> string" where
  \<comment> \<open>\<open>digest('hex')\<close>: two lowercase hexadecimal digits per byte.\<close>
  "hex_encode bs = concat (map hex_byte bs)"

section \<open>The client and its signature\<close>

text \<open>
  \<open>crypto.createHmac('sha256', key).update(msg).digest()\<close> belongs to the platform, not to
  this repository: the keyed hash is a parameter \<open>H\<close> of the model, from the key's bytes
  and the message's bytes to the digest's bytes; \<open>hmac_sha256_std\<close> below is the function
  the platform computes. \<open>createHmac\<close> accepts a string key (its UTF-8 bytes are the key)
  and throws a \<open>TypeError\<close> for \<open>undefined\<close>, \<open>null\<close>, a number or a plain object. The
  other keys it accepts (a Buffer, a typed array, a key object) are not values of \<open>jsval\<close>.
\<close>

type_synonym hmac_fn = "nat list \<Rightarrow> nat list \<Rightarrow> nat list"

record client =
  apiKey :: jsval
  apiSecret :: jsval

definition new_CryptorgApi :: "jsval \<Rightarrow> jsval \<Rightarrow> js_error + client" where
  \<comment> \<open>The constructor: two assignments, no check and no throw.\<close>
  "new_CryptorgApi key secret = Inr \<lparr>apiKey = key, apiSecret = secret\<rparr>"

definition hmac_key :: "jsval \<Rightarrow> js_error + nat list" where
  "hmac_key k = (case k of JStr s \<Rightarrow> Inr (utf8_encode s) | _ \<Rightarrow> Inl TypeError)"

definition strForSign :: "jsval \<Rightarrow> jsval \<Rightarrow> jsval \<Rightarrow> string" where
  \<comment> \<open>\<open>path + '/' + nonce + '/' + queryString\<close>: the literal \<open>'/'\<close> makes every \<open>+\<close> a concatenation.\<close>
  "strForSign path queryString nonce =
     js_to_string path @ ''/'' @ js_to_string nonce @ ''/'' @ js_to_string queryString"

definition getSignature :: "hmac_fn \<Rightarrow> client \<Rightarrow> jsval \<Rightarrow> jsval \<Rightarrow> jsval \<Rightarrow> js_error + string" where
  "getSignature H this path queryString nonce =
     (let signatureStr = base64_encode (utf8_encode (strForSign path queryString nonce))
      in case hmac_key (apiSecret this) of
           Inl e \<Rightarrow> Inl e
         | Inr key \<Rightarrow> Inr (hex_encode (H key (utf8_encode signatureStr))))"

section \<open>HMAC-SHA256\<close>

text \<open>
  What \<open>createHmac('sha256', key)\<close> computes: SHA-256 (FIPS 180-4) on 32-bit words, here
  numbers below \<open>2 ^ 32\<close>, and HMAC (RFC 2104) with its 64-byte block. The round constants
  are the leading fraction bits of the cube roots of the first 64 primes, the initial
  hash value those of the square roots of the first 8.
\<close>

definition add32 :: "nat \<Rightarrow> nat \<Rightarrow> nat" where
  "add32 a b = (a + b) mod 4294967296"

definition rotr :: "nat \<Rightarrow> nat \<Rightarrow> nat" where
  "rotr k x = x div 2 ^ k + x mod 2 ^ k * 2 ^ (32 - k)"

definition ch :: "nat \<Rightarrow> nat \<Rightarrow> nat \<Rightarrow> nat" where
  "ch x y z = (x AND y) XOR ((4294967295 - x) AND z)"

definition maj :: "nat \<Rightarrow> nat \<Rightarrow> nat \<Rightarrow> nat" where
  "maj x y z = (x AND y) XOR (x AND z) XOR (y AND z)"

definition big_sigma0 :: "nat \<Rightarrow> nat" where
  "big_sigma0 x = rotr 2 x XOR rotr 13 x XOR rotr 22 x"

definition big_sigma1 :: "nat \<Rightarrow> nat" where
  "big_sigma1 x = rotr 6 x XOR rotr 11 x XOR rotr 25 x"

definition small_sigma0 :: "nat \<Rightarrow> nat" where
  "small_sigma0 x = rotr 7 x XOR rotr 18 x XOR x div 2 ^ 3"

definition small_sigma1 :: "nat \<Rightarrow> nat" where
  "small_sigma1 x = rotr 17 x XOR rotr 19 x XOR x div 2 ^ 10"

definition sha256_K :: "nat list" where
  "sha256_K =
     [1116352408, 1899447441, 3049323471, 3921009573, 961987163, 1508970993,
      2453635748, 2870763221, 3624381080, 310598401, 607225278, 1426881987,
      1925078388, 2162078206, 2614888103, 3248222580, 3835390401, 4022224774,
      264347078, 604807628, 770255983, 1249150122, 1555081692, 1996064986,
      2554220882, 2821834349, 2952996808, 3210313671, 3336571891, 3584528711,
      113926993, 338241895, 666307205, 773529912, 1294757372, 1396182291,
      1695183700, 1986661051, 2177026350, 2456956037, 2730485921, 2820302411,
      3259730800, 3345764771, 3516065817, 3600352804, 4094571909, 275423344,
      430227734, 506948616, 659060556, 883997877, 958139571, 1322822218,
      1537002063, 1747873779, 1955562222, 2024104815, 2227730452, 2361852424,
      2428436474, 2756734187, 3204031479, 3329325298]"

definition sha256_H0 :: "nat list" where
  "sha256_H0 =
     [1779033703, 3144134277, 1013904242, 2773480762,
      1359893119, 2600822924, 528734635, 1541459225]"

text \<open>The message schedule, newest word first: one more word per remaining round constant.\<close>

definition next_word :: "nat list \<Rightarrow> nat" where
  "next_word ws =
     add32 (add32 (small_sigma1 (ws ! 1)) (ws ! 6)) (add32 (small_sigma0 (ws ! 14)) (ws ! 15))"

fun expand :: "'a list \<Rightarrow> nat list \<Rightarrow> nat list" where
  "expand [] ws = ws"
| "expand (k # ks) ws = expand ks (next_word ws # ws)"

definition shift :: "nat \<Rightarrow> nat \<Rightarrow> nat list \<Rightarrow> nat list" where
  "shift t1 t2 s = [add32 t1 t2, s ! 0, s ! 1, s ! 2, add32 (s ! 3) t1, s ! 4, s ! 5, s ! 6]"

definition round_step :: "nat \<Rightarrow> nat \<Rightarrow> nat list \<Rightarrow> nat list" where
  "round_step k w s =
     shift (add32 (add32 (add32 (s ! 7) (big_sigma1 (s ! 4))) (ch (s ! 4) (s ! 5) (s ! 6))) (add32 k w))
           (add32 (big_sigma0 (s ! 0)) (maj (s ! 0) (s ! 1) (s ! 2))) s"

fun rounds :: "nat list \<Rightarrow> nat list \<Rightarrow> nat list \<Rightarrow> nat list" where
  "rounds (k # ks) (w # ws) s = rounds ks ws (round_step k w s)"
| "rounds ks ws s = s"

definition compress :: "nat list \<Rightarrow> nat list \<Rightarrow> nat list" where
  "compress h block =
     map2 add32 h (rounds sha256_K (rev (expand (drop 16 sha256_K) (rev block))) h)"

fun be_words :: "nat list \<Rightarrow> nat list" where
  "be_words (a # b # c # d # rest) = (((a * 256 + b) * 256 + c) * 256 + d) # be_words rest"
| "be_words bs = []"

fun absorb :: "nat list \<Rightarrow> nat list \<Rightarrow> nat list" where
  "absorb h (w0 # w1 # w2 # w3 # w4 # w5 # w6 # w7 # w8 # w9 # w10 # w11 # w12 # w13 # w14 # w15 # rest) =
     absorb (compress h [w0, w1, w2, w3, w4, w5, w6, w7, w8, w9, w10, w11, w12, w13, w14, w15]) rest"
| "absorb h ws = h"

definition be_bytes :: "nat \<Rightarrow> nat \<Rightarrow> nat list" where
  "be_bytes k n = map (\<lambda>i. n div 256 ^ i mod 256) (rev [0..<k])"

definition sha256_pad :: "nat list \<Rightarrow> nat list" where
  "sha256_pad msg =
     msg @ [128] @ replicate ((119 - length msg mod 64) mod 64) 0 @ be_bytes 8 (8 * length msg)"

definition sha256 :: "nat list \<Rightarrow> nat list" where
  "sha256 msg = concat (map (be_bytes 4) (absorb sha256_H0 (be_words (sha256_pad msg))))"

definition hmac_block :: "nat list \<Rightarrow> nat list" where
  "hmac_block key =
     (if 64 < length key then sha256 key else key)
       @ replicate (64 - length (if 64 < length key then sha256 key else key)) 0"

definition hmac_sha256_std :: "nat list \<Rightarrow> nat list \<Rightarrow> nat list" where
  "hmac_sha256_std key msg =
     sha256 (map (\<lambda>b. b XOR 92) (hmac_block key)
             @ sha256 (map (\<lambda>b. b XOR 54) (hmac_block key) @ msg))"

section \<open>The dispatcher\<close>

text \<open>
  \<open>sendRequest\<close> reads the clock, signs, builds the \<open>options\<close> object and hands it to
  \<open>request.get\<close> or \<open>request.post\<close> inside a promise. The clock's reading, the keyed hash
  and the HTTP library are the runtime the method runs in. The HTTP library answers a call
  by invoking the callback once with \<open>(err, resp, body)\<close>, or never: \<open>err\<close> is \<open>null\<close>
  (here \<open>None\<close>) when the exchange completed, whatever its status code, and an error
  object when the transport failed.
\<close>

record options =
  headers :: "(string \<times> jsval) list"
  http_method :: jsval
  uri :: string
  form :: "jsval option"

datatype http_call = RequestGet options | RequestPost options

fun call_options :: "http_call \<Rightarrow> options" where
  "call_options (RequestGet opts) = opts"
| "call_options (RequestPost opts) = opts"

record cb_args =
  err :: "js_error option"
  resp :: "nat option"
  body :: jsval

datatype promise = Pending | Resolved jsval | Rejected js_error

record runtime =
  hmac_sha256 :: hmac_fn
  getTime :: int
  request :: "http_call \<Rightarrow> cb_args option"

text \<open>
  What a call did, in order: the clock read, the call of \<open>getSignature\<close> with its
  arguments, the call of the HTTP library.
\<close>

datatype event =
    is_GetTime: GetTime int
  | is_GetSignature: GetSignature jsval jsval jsval
  | is_Http: Http http_call

record outcome =
  result :: "js_error + promise"
  trace :: "event list"

definition requests :: "outcome \<Rightarrow> http_call list" where
  "requests out = concat (map (\<lambda>e. case e of Http c \<Rightarrow> [c] | _ \<Rightarrow> []) (trace out))"

definition apiUrl :: string where
  "apiUrl = ''https://api.cryptorg.net/''"

definition callback :: "cb_args \<Rightarrow> promise" where
  \<comment> \<open>\<open>function(err, resp, body) { if (err) reject(err); else resolve(body); }\<close>\<close>
  "callback a = (case err a of Some e \<Rightarrow> Rejected e | None \<Rightarrow> Resolved (body a))"

definition settle :: "cb_args option \<Rightarrow> promise" where
  \<comment> \<open>The promise stays pending until the callback runs.\<close>
  "settle r = (case r of None \<Rightarrow> Pending | Some a \<Rightarrow> callback a)"

definition sendRequest ::
  "runtime \<Rightarrow> client \<Rightarrow> jsval \<Rightarrow> jsval \<Rightarrow> jsval \<Rightarrow> jsval \<Rightarrow> outcome" where
  \<comment> \<open>\<open>meth\<close> is the source's \<open>method\<close>; \<open>query0\<close> and \<open>params0\<close> are the arguments as passed,
      \<open>query\<close> and \<open>params\<close> the parameters after their \<open>= null\<close> defaults. A throw of
      \<open>getSignature\<close> leaves \<open>sendRequest\<close> before the promise is made.\<close>
  "sendRequest R this meth url query0 params0 =
     (let query = default_param query0 JNull;
          params = default_param params0 JNull;
          nonce = JNum (getTime R);
          signing = [GetTime (getTime R), GetSignature url query nonce]
      in case getSignature (hmac_sha256 R) this url query nonce of
           Inl e \<Rightarrow> \<lparr>result = Inl e, trace = signing\<rparr>
         | Inr hash \<Rightarrow>
             (let header = [(''CTG-API-SIGNATURE'', JStr hash),
                            (''CTG-API-KEY'', apiKey this),
                            (''CTG-API-NONCE'', nonce)];
                  opts = \<lparr>headers = header, http_method = meth,
                          uri = apiUrl @ js_to_string url @ ''?'' @ js_to_string query,
                          form = None\<rparr>
              in if meth = JStr ''GET'' then
                   \<lparr>result = Inr (settle (request R (RequestGet opts))),
                    trace = signing @ [Http (RequestGet opts)]\<rparr>
                 else if meth = JStr ''POST'' then
                   (let opts' = opts\<lparr>form := Some params\<rparr>
                    in \<lparr>result = Inr (settle (request R (RequestPost opts'))),
                        trace = signing @ [Http (RequestPost opts')]\<rparr>)
                 else \<lparr>result = Inr Pending, trace = signing\<rparr>))"

text \<open>The two endpoint methods that pass no query.\<close>

definition status :: "runtime \<Rightarrow> client \<Rightarrow> outcome" where
  "status R this = sendRequest R this (JStr ''GET'') (JStr ''api/status'') JUndefined JUndefined"

definition botList :: "runtime \<Rightarrow> client \<Rightarrow> outcome" where
  "botList R this = sendRequest R this (JStr ''GET'') (JStr ''bot/all'') JUndefined JUndefined"

section \<open>The client over time\<close>

text \<open>
  A method runs on a machine: the fields of the client object, and a clock that gives a
  fresh reading each time it is read. \<open>getSignature\<close> reads the secret and writes nothing;
  \<open>sendRequest\<close> reads the clock once, by \<open>new Date().getTime()\<close>, and runs the rest of its
  body, which is \<open>sendRequest\<close> above, on that reading.
\<close>

record machine =
  self :: client
  clock :: "nat \<Rightarrow> int"
  reads :: nat

definition Date_getTime :: "machine \<Rightarrow> int \<times> machine" where
  "Date_getTime M = (clock M (reads M), M\<lparr>reads := Suc (reads M)\<rparr>)"

definition run_getSignature ::
  "hmac_fn \<Rightarrow> jsval \<Rightarrow> jsval \<Rightarrow> jsval \<Rightarrow> machine \<Rightarrow> (js_error + string) \<times> machine" where
  "run_getSignature H path queryString nonce M = (getSignature H (self M) path queryString nonce, M)"

record call =
  call_method :: jsval
  call_url :: jsval
  call_query :: jsval
  call_params :: jsval

definition run_sendRequest ::
  "hmac_fn \<Rightarrow> (http_call \<Rightarrow> cb_args option) \<Rightarrow> call \<Rightarrow> machine \<Rightarrow> outcome \<times> machine" where
  "run_sendRequest H net a M =
     (case Date_getTime M of
        (nonce, M') \<Rightarrow>
          (sendRequest \<lparr>hmac_sha256 = H, getTime = nonce, request = net\<rparr> (self M')
             (call_method a) (call_url a) (call_query a) (call_params a), M'))"

text \<open>One call after the other, each on the machine the one before has left.\<close>

fun run_all ::
  "hmac_fn \<Rightarrow> (http_call \<Rightarrow> cb_args option) \<Rightarrow> call list \<Rightarrow> machine \<Rightarrow> outcome list \<times> machine" where
  "run_all H net [] M = ([], M)"
| "run_all H net (a # calls) M =
     (case run_sendRequest H net a M of
        (out, M') \<Rightarrow> (case run_all H net calls M' of (outs, M'') \<Rightarrow> (out # outs, M'')))"

section \<open>A concrete runtime for the examples\<close>

text \<open>
  The theorems below hold in every runtime. Their closed instances need one: a clock
  reading, a network that completes every exchange with a given status and body or fails
  every exchange with a given error, and a fixed digest in the place of the platform's
  keyed hash.
\<close>

definition sample_digest :: hmac_fn where
  "sample_digest key msg = [length key mod 256, length msg mod 256, 171]"

definition completes_with :: "nat \<Rightarrow> string \<Rightarrow> http_call \<Rightarrow> cb_args option" where
  "completes_with code text c = Some \<lparr>err = None, resp = Some code, body = JStr text\<rparr>"

definition fails_with :: "string \<Rightarrow> http_call \<Rightarrow> cb_args option" where
  "fails_with msg c = Some \<lparr>err = Some (Error msg), resp = None, body = JUndefined\<rparr>"

definition sample_runtime :: "(http_call \<Rightarrow> cb_args option) \<Rightarrow> runtime" where
  "sample_runtime net = \<lparr>hmac_sha256 = sample_digest, getTime = 1700000000000, request = net\<rparr>"

definition sample_client :: client where
  "sample_client = \<lparr>apiKey = JStr ''key'', apiSecret = JStr ''shh''\<rparr>"

definition sample_get :: http_call where
  "sample_get = RequestGet
     \<lparr>headers = [(''CTG-API-SIGNATURE'', JStr ''032cab''), (''CTG-API-KEY'', JStr ''key''),
                 (''CTG-API-NONCE'', JNum 1700000000000)],
      http_method = JStr ''GET'', uri = ''https://api.cryptorg.net/bot/info?botId=42'', form = None\<rparr>"

definition sample_status_get :: http_call where
  "sample_status_get = RequestGet
     \<lparr>headers = [(''CTG-API-SIGNATURE'', JStr ''0328ab''), (''CTG-API-KEY'', JStr ''key''),
                 (''CTG-API-NONCE'', JNum 1700000000000)],
      http_method = JStr ''GET'', uri = ''https://api.cryptorg.net/api/status?null'', form = None\<rparr>"

definition sample_attributes :: jsval where
  "sample_attributes = JObj [(''title'', ''first bot''), (''volume'', ''10'')]"

definition sample_post :: http_call where
  "sample_post = RequestPost
     \<lparr>headers = [(''CTG-API-SIGNATURE'', JStr ''034cab''), (''CTG-API-KEY'', JStr ''key''),
                 (''CTG-API-NONCE'', JNum 1700000000000)],
      http_method = JStr ''POST'',
      uri = ''https://api.cryptorg.net/bot/create?pair=BTC_USDT&exchange=binance'',
      form = Some sample_attributes\<rparr>"

definition empty_client :: client where
  "empty_client = \<lparr>apiKey = JStr '''', apiSecret = JStr ''''\<rparr>"

definition empty_status_get :: http_call where
  "empty_status_get = RequestGet
     \<lparr>headers = [(''CTG-API-SIGNATURE'', JStr ''0028ab''), (''CTG-API-KEY'', JStr ''''),
                 (''CTG-API-NONCE'', JNum 1700000000000)],
      http_method = JStr ''GET'', uri = ''https://api.cryptorg.net/api/status?null'', form = None\<rparr>"

text \<open>A clock that advances by a millisecond from one reading to the next.\<close>

definition sample_clock :: "nat \<Rightarrow> int" where
  "sample_clock k = 1700000000000 + int k"

definition sample_machine :: machine where
  "sample_machine = \<lparr>self = sample_client, clock = sample_clock, reads = 0\<rparr>"

definition sample_call :: call where
  "sample_call = \<lparr>call_method = JStr ''GET'', call_url = JStr ''bot/info'',
                   call_query = JStr ''botId=42'', call_params = JUndefined\<rparr>"

section \<open>Evaluation and the shape of a dispatch\<close>

lemma hex_byte_lowercase: "set (hex_byte b) \<subseteq> set hex_chars"
proof -
  have "b div 16 mod 16 < length hex_chars" "b mod 16 < length hex_chars"
    by (simp_all add: hex_chars_def)
  then show ?thesis
    unfolding hex_byte_def by (simp only: list.set insert_subset nth_mem empty_subsetI simp_thms)
qed

lemma hex_encode_lowercase: "set (hex_encode bs) \<subseteq> set hex_chars"
  using hex_byte_lowercase by (auto simp: hex_encode_def)

lemma hex_encode_length: "length (hex_encode bs) = 2 * length bs"
  by (induction bs) (simp_all add: hex_encode_def hex_byte_def)

lemma digits10_small: "n < 10 \<Longrightarrow> digits10 n = [digit_chars ! n]"
  by (subst digits10.simps) simp

lemma digits10_step:
  "\<not> n < 10 \<Longrightarrow> digits10 n = digits10 (n div 10) @ [digit_chars ! (n mod 10)]"
  by (subst digits10.simps) simp

lemma bitlen_zero: "bitlen 0 = 0"
  by (subst bitlen.simps) simp

lemma bitlen_step: "n \<noteq> 0 \<Longrightarrow> bitlen n = 1 + bitlen (n div 2)"
  by (subst bitlen.simps) simp

lemma replicate_step: "0 < n \<Longrightarrow> replicate n x = x # replicate (n - 1) x"
  by (cases n) simp_all

lemma upt_step: "i < j \<Longrightarrow> [i..<j] = i # [i + 1..<j]"
  by (simp add: upt_conv_Cons)

lemmas evaluation =
  getSignature_def hmac_key_def strForSign_def show_int_def show_nat_def digits10_small
  digits10_step digit_chars_def utf8_encode_def utf8_char_def b64_def base64_chars_def
  hex_encode_def hex_byte_def hex_chars_def sample_digest_def

lemmas number_evaluation =
  show_int_def show_nat_def show_double_def round_double_def round_at_def rounds_to_def
  zeros_ok_def nearer_def shortest_with_def shortest_between_def shortest_at_def
  shortest_digits_def digits10_small digits10_step digit_chars_def
  bitlen_zero bitlen_step replicate_step

lemmas sha_evaluation =
  add32_def rotr_def ch_def maj_def big_sigma0_def big_sigma1_def small_sigma0_def
  small_sigma1_def sha256_K_def sha256_H0_def next_word_def shift_def round_step_def
  compress_def be_bytes_def sha256_pad_def sha256_def hmac_block_def hmac_sha256_std_def
  replicate_step upt_step

lemma fixture_decimal: "show_int 1700000000000 = ''1700000000000''"
  by (simp add: number_evaluation)

text \<open>
  Number-to-string beyond \<open>2 ^ 53\<close>: \<open>2 ^ 60\<close>, the literal \<open>2 ^ 53 + 1\<close>, which denotes
  \<open>2 ^ 53\<close>, and the first numbers printed with an exponent.
\<close>

lemma show_int_safe:
  "\<bar>i\<bar> \<le> 2 ^ 53 \<Longrightarrow>
   show_int i = (if i < 0 then CHR ''-'' # digits10 (nat (- i)) else digits10 (nat i))"
  by (auto simp: show_int_def show_nat_def nat_le_iff)

lemma show_int_2_60: "show_int 1152921504606846976 = ''1152921504606847000''"
  by (simp add: number_evaluation)

lemma show_int_examples:
  "show_int 9007199254740993 = ''9007199254740992''"
  "show_int 1000000000000000000000 = ''1e+21''"
  "show_int (- 123456789012345678901234567890) = ''-1.2345678901234568e+29''"
  by (simp_all add: number_evaluation)

text \<open>SHA-256 of \<open>abc\<close>, the first test vector of the standard.\<close>

lemma sha256_abc:
  "sha256 [97, 98, 99] =
     [186, 120, 22, 191, 143, 1, 207, 234, 65, 65, 64, 222, 93, 174, 34, 35,
      176, 3, 97, 163, 150, 23, 122, 156, 180, 16, 255, 97, 242, 0, 21, 173]"
  by (simp add: sha_evaluation)

text \<open>The keyed hash of the fixture: key \<open>shh\<close>, message the base64 text of the fixture.\<close>

lemma fixture_hmac:
  "hmac_sha256_std [115, 104, 104]
     [89, 109, 57, 48, 76, 50, 108, 117, 90, 109, 56, 118, 77, 84, 99, 119, 77, 68, 65, 119,
      77, 68, 65, 119, 77, 68, 65, 119, 77, 67, 57, 105, 98, 51, 82, 74, 90, 68, 48, 48,
      77, 103, 61, 61]
   = [24, 84, 28, 237, 181, 145, 106, 58, 216, 18, 52, 158, 39, 217, 51, 5,
      234, 90, 118, 1, 128, 23, 50, 209, 196, 156, 26, 204, 192, 199, 127, 216]"
  by (simp add: sha_evaluation)

lemma fixture_bytes:
  "utf8_encode ''shh'' = [115, 104, 104]"
  "utf8_encode ''Ym90L2luZm8vMTcwMDAwMDAwMDAwMC9ib3RJZD00Mg==''
   = [89, 109, 57, 48, 76, 50, 108, 117, 90, 109, 56, 118, 77, 84, 99, 119, 77, 68, 65, 119,
      77, 68, 65, 119, 77, 68, 65, 119, 77, 67, 57, 105, 98, 51, 82, 74, 90, 68, 48, 48,
      77, 103, 61, 61]"
  by (simp_all add: utf8_encode_def utf8_char_def)

lemma fixture_hex:
  "hex_encode [24, 84, 28, 237, 181, 145, 106, 58, 216, 18, 52, 158, 39, 217, 51, 5,
      234, 90, 118, 1, 128, 23, 50, 209, 196, 156, 26, 204, 192, 199, 127, 216]
   = ''18541cedb5916a3ad812349e27d93305ea5a7601801732d1c49c1accc0c77fd8''"
  by (simp add: hex_encode_def hex_byte_def hex_chars_def)

lemma fixture_base64:
  "base64_encode (utf8_encode ''bot/info/1700000000000/botId=42'')
     = ''Ym90L2luZm8vMTcwMDAwMDAwMDAwMC9ib3RJZD00Mg==''"
  by (simp add: utf8_encode_def utf8_char_def b64_def base64_chars_def)

text \<open>The three tails of the base64 encoding, and a character outside ASCII.\<close>

lemma base64_examples:
  "base64_encode (utf8_encode ''a'') = ''YQ==''"
  "base64_encode (utf8_encode ''ab'') = ''YWI=''"
  "base64_encode (utf8_encode ''abc'') = ''YWJj''"
  "base64_encode (utf8_encode [CHR ''a'', CHR 0xE9]) = ''YcOp''"
  by (simp_all add: utf8_encode_def utf8_char_def b64_def base64_chars_def)

lemma getSignature_secret_only:
  "apiSecret this = JStr secret \<Longrightarrow>
   getSignature H this path query nonce
     = Inr (hex_encode (H (utf8_encode secret)
         (utf8_encode (base64_encode (utf8_encode (strForSign path query nonce))))))"
  by (simp add: getSignature_def hmac_key_def)

lemma string_secret_signs:
  "apiSecret this = JStr secret \<Longrightarrow> \<exists>hash. getSignature H this path query nonce = Inr hash"
  by (simp add: getSignature_secret_only)

text \<open>The four ways through \<open>sendRequest\<close>: the signature throws, GET, POST, any other method.\<close>

lemma sendRequest_throws:
  "getSignature (hmac_sha256 R) this url (default_param query0 JNull) (JNum (getTime R)) = Inl e \<Longrightarrow>
   sendRequest R this meth url query0 params0
     = \<lparr>result = Inl e,
        trace = [GetTime (getTime R),
                 GetSignature url (default_param query0 JNull) (JNum (getTime R))]\<rparr>"
  by (simp add: sendRequest_def Let_def)

lemma sendRequest_get:
  "getSignature (hmac_sha256 R) this url (default_param query0 JNull) (JNum (getTime R)) = Inr hash \<Longrightarrow>
   sendRequest R this (JStr ''GET'') url query0 params0
     = (let opts = \<lparr>headers = [(''CTG-API-SIGNATURE'', JStr hash), (''CTG-API-KEY'', apiKey this),
                                (''CTG-API-NONCE'', JNum (getTime R))],
                     http_method = JStr ''GET'',
                     uri = apiUrl @ js_to_string url @ ''?'' @ js_to_string (default_param query0 JNull),
                     form = None\<rparr>
        in \<lparr>result = Inr (settle (request R (RequestGet opts))),
            trace = [GetTime (getTime R),
                     GetSignature url (default_param query0 JNull) (JNum (getTime R)),
                     Http (RequestGet opts)]\<rparr>)"
  by (simp add: sendRequest_def Let_def)

lemma sendRequest_post:
  "getSignature (hmac_sha256 R) this url (default_param query0 JNull) (JNum (getTime R)) = Inr hash \<Longrightarrow>
   sendRequest R this (JStr ''POST'') url query0 params0
     = (let opts = \<lparr>headers = [(''CTG-API-SIGNATURE'', JStr hash), (''CTG-API-KEY'', apiKey this),
                                (''CTG-API-NONCE'', JNum (getTime R))],
                     http_method = JStr ''POST'',
                     uri = apiUrl @ js_to_string url @ ''?'' @ js_to_string (default_param query0 JNull),
                     form = Some (default_param params0 JNull)\<rparr>
        in \<lparr>result = Inr (settle (request R (RequestPost opts))),
            trace = [GetTime (getTime R),
                     GetSignature url (default_param query0 JNull) (JNum (getTime R)),
                     Http (RequestPost opts)]\<rparr>)"
  by (simp add: sendRequest_def Let_def)

lemma sendRequest_other:
  "getSignature (hmac_sha256 R) this url (default_param query0 JNull) (JNum (getTime R)) = Inr hash \<Longrightarrow>
   meth \<noteq> JStr ''GET'' \<Longrightarrow> meth \<noteq> JStr ''POST'' \<Longrightarrow>
   sendRequest R this meth url query0 params0
     = \<lparr>result = Inr Pending,
        trace = [GetTime (getTime R),
                 GetSignature url (default_param query0 JNull) (JNum (getTime R))]\<rparr>"
  by (simp add: sendRequest_def Let_def)

lemma sendRequest_signs:
  "GetSignature url (default_param query0 JNull) (JNum (getTime R))
     \<in> set (trace (sendRequest R this meth url query0 params0))"
  by (simp add: sendRequest_def Let_def split: sum.splits)

text \<open>Every request that \<open>sendRequest\<close> issues carries the signature it computed, and its URL.\<close>

lemma issued_request:
  assumes "Http c \<in> set (trace (sendRequest R this meth url query0 params0))"
  shows "\<exists>hash.
      getSignature (hmac_sha256 R) this url (default_param query0 JNull) (JNum (getTime R)) = Inr hash
    \<and> headers (call_options c) =
        [(''CTG-API-SIGNATURE'', JStr hash), (''CTG-API-KEY'', apiKey this),
         (''CTG-API-NONCE'', JNum (getTime R))]
    \<and> uri (call_options c)
        = apiUrl @ js_to_string url @ ''?'' @ js_to_string (default_param query0 JNull)"
proof (cases "getSignature (hmac_sha256 R) this url (default_param query0 JNull) (JNum (getTime R))")
  case (Inl e)
  with assms show ?thesis by (simp add: sendRequest_throws)
next
  case (Inr hash)
  consider "meth = JStr ''GET''" | "meth = JStr ''POST''"
    | "meth \<noteq> JStr ''GET''" "meth \<noteq> JStr ''POST''" by blast
  then show ?thesis
  proof cases
    case 1
    with assms Inr show ?thesis by (auto simp: sendRequest_get Let_def)
  next
    case 2
    with assms Inr show ?thesis by (auto simp: sendRequest_post Let_def)
  next
    case 3
    with assms Inr show ?thesis by (simp add: sendRequest_other)
  qed
qed

text \<open>The sample runtime, evaluated.\<close>

lemma sample_signature:
  "getSignature sample_digest sample_client (JStr ''bot/info'') (JStr ''botId=42'') (JNum 1700000000000)
     = Inr ''032cab''"
  by (simp add: evaluation sample_client_def)

lemma sample_signature_status:
  "getSignature sample_digest sample_client (JStr ''api/status'') JNull (JNum 1700000000000)
     = Inr ''0328ab''"
  by (simp add: evaluation sample_client_def)

lemma sample_signature_create:
  "getSignature sample_digest sample_client (JStr ''bot/create'')
     (JStr ''pair=BTC_USDT&exchange=binance'') (JNum 1700000000000) = Inr ''034cab''"
  by (simp add: evaluation sample_client_def)

lemma empty_signature_status:
  "getSignature sample_digest empty_client (JStr ''api/status'') JNull (JNum 1700000000000)
     = Inr ''0028ab''"
  by (simp add: evaluation empty_client_def)

lemma sample_client_key: "apiKey sample_client = JStr ''key''"
  by (simp add: sample_client_def)

lemma empty_client_key: "apiKey empty_client = JStr ''''"
  by (simp add: empty_client_def)

lemma sample_dispatch:
  "sendRequest (sample_runtime net) sample_client (JStr ''GET'') (JStr ''bot/info'') (JStr ''botId=42'') JUndefined
     = \<lparr>result = Inr (settle (net sample_get)),
        trace = [GetTime 1700000000000,
                 GetSignature (JStr ''bot/info'') (JStr ''botId=42'') (JNum 1700000000000),
                 Http sample_get]\<rparr>"
  by (simp add: sendRequest_def Let_def sample_runtime_def default_param_def sample_signature
      apiUrl_def sample_get_def sample_client_key)

lemma sample_status:
  "status (sample_runtime net) sample_client
     = \<lparr>result = Inr (settle (net sample_status_get)),
        trace = [GetTime 1700000000000,
                 GetSignature (JStr ''api/status'') JNull (JNum 1700000000000),
                 Http sample_status_get]\<rparr>"
  by (simp add: status_def sendRequest_def Let_def sample_runtime_def default_param_def
      sample_signature_status apiUrl_def sample_status_get_def sample_client_key)

lemma empty_status:
  "status (sample_runtime net) empty_client
     = \<lparr>result = Inr (settle (net empty_status_get)),
        trace = [GetTime 1700000000000,
                 GetSignature (JStr ''api/status'') JNull (JNum 1700000000000),
                 Http empty_status_get]\<rparr>"
  by (simp add: status_def sendRequest_def Let_def sample_runtime_def default_param_def
      empty_signature_status apiUrl_def empty_status_get_def empty_client_key)

lemma sample_create:
  "sendRequest (sample_runtime net) sample_client (JStr ''POST'') (JStr ''bot/create'')
       (JStr ''pair=BTC_USDT&exchange=binance'') sample_attributes
     = \<lparr>result = Inr (settle (net sample_post)),
        trace = [GetTime 1700000000000,
                 GetSignature (JStr ''bot/create'') (JStr ''pair=BTC_USDT&exchange=binance'')
                   (JNum 1700000000000),
                 Http sample_post]\<rparr>"
  by (simp add: sendRequest_def Let_def sample_runtime_def default_param_def sample_signature_create
      apiUrl_def sample_post_def sample_client_key sample_attributes_def)

lemma sample_put:
  "sendRequest (sample_runtime net) sample_client (JStr ''PUT'') (JStr ''bot/info'') (JStr ''botId=42'') JUndefined
     = \<lparr>result = Inr Pending,
        trace = [GetTime 1700000000000,
                 GetSignature (JStr ''bot/info'') (JStr ''botId=42'') (JNum 1700000000000)]\<rparr>"
  by (simp add: sendRequest_def Let_def sample_runtime_def default_param_def sample_signature)

lemma sample_secret: "apiSecret sample_client = JStr ''shh''"
  by (simp add: sample_client_def)

lemma fixture_decimal_next: "show_int 1700000000001 = ''1700000000001''"
  by (simp add: number_evaluation)

lemma fixture_base64_2_60:
  "base64_encode (utf8_encode ''bot/info/1152921504606847000/botId=42'')
     = ''Ym90L2luZm8vMTE1MjkyMTUwNDYwNjg0NzAwMC9ib3RJZD00Mg==''"
  by (simp add: utf8_encode_def utf8_char_def b64_def base64_chars_def)

text \<open>Methods on the machine: what a call, and a sequence of calls, leaves behind.\<close>

lemma requests_trace: "c \<in> set (requests out) \<longleftrightarrow> Http c \<in> set (trace out)"
  by (induction "trace out" arbitrary: out) (auto simp: requests_def split: event.splits)

lemma run_sendRequest_shape:
  "run_sendRequest H net a M =
     (sendRequest \<lparr>hmac_sha256 = H, getTime = clock M (reads M), request = net\<rparr> (self M)
        (call_method a) (call_url a) (call_query a) (call_params a),
      M\<lparr>reads := Suc (reads M)\<rparr>)"
  by (simp add: run_sendRequest_def Date_getTime_def)

lemma run_all_shape:
  "run_all H net calls M = (outs, M') \<Longrightarrow>
     M' = M\<lparr>reads := reads M + length calls\<rparr>
   \<and> length outs = length calls
   \<and> (\<forall>k<length calls. outs ! k =
         sendRequest \<lparr>hmac_sha256 = H, getTime = clock M (reads M + k), request = net\<rparr> (self M)
           (call_method (calls ! k)) (call_url (calls ! k)) (call_query (calls ! k))
           (call_params (calls ! k)))"
proof (induction calls arbitrary: M outs M')
  case Nil
  then show ?case by simp
next
  case (Cons a calls)
  obtain rest M'' where rest: "run_all H net calls (M\<lparr>reads := Suc (reads M)\<rparr>) = (rest, M'')"
    by force
  from Cons.prems rest have outs: "outs =
      sendRequest \<lparr>hmac_sha256 = H, getTime = clock M (reads M), request = net\<rparr> (self M)
        (call_method a) (call_url a) (call_query a) (call_params a) # rest"
    and M': "M' = M''"
    by (simp_all add: run_sendRequest_shape)
  from Cons.IH [OF rest] have ih:
    "M'' = M\<lparr>reads := Suc (reads M) + length calls\<rparr>"
    "length rest = length calls"
    "\<And>j. j < length calls \<Longrightarrow> rest ! j =
         sendRequest \<lparr>hmac_sha256 = H, getTime = clock M (Suc (reads M) + j), request = net\<rparr> (self M)
           (call_method (calls ! j)) (call_url (calls ! j)) (call_query (calls ! j))
           (call_params (calls ! j))"
    by simp_all
  have "outs ! k =
         sendRequest \<lparr>hmac_sha256 = H, getTime = clock M (reads M + k), request = net\<rparr> (self M)
           (call_method ((a # calls) ! k)) (call_url ((a # calls) ! k)) (call_query ((a # calls) ! k))
           (call_params ((a # calls) ! k))"
    if "k < length (a # calls)" for k
  proof (cases k)
    case 0
    then show ?thesis by (simp add: outs)
  next
    case (Suc j)
    with that have "j < length calls" by simp
    from ih(3) [OF this] Suc show ?thesis by (simp add: outs)
  qed
  with ih(1,2) outs M' show ?case by simp
qed

section \<open>The signature\<close>

text \<open>
  C1. For every path string, query string and integer nonce, the signature is the
  lowercase hex encoding (two digits of \<open>0-9a-f\<close> per digest byte) of the HMAC keyed by the
  client's secret over the base64 encoding of \<open>path + "/" + nonce + "/" + query\<close>, the nonce
  as JavaScript prints the number. With HMAC-SHA256, secret \<open>shh\<close>, path \<open>bot/info\<close>, query
  \<open>botId=42\<close> and nonce 1700000000000, the message is the base64 text of
  \<open>bot/info/1700000000000/botId=42\<close> and the signature is \<open>18541ced...c77fd8\<close>. At the nonce
  \<open>2 ^ 60\<close>, beyond the integers that print exactly, the string that is signed reads
  \<open>bot/info/1152921504606847000/botId=42\<close>.
\<close>

theorem getSignature_hex_hmac_base64:
  "getSignature H \<lparr>apiKey = k, apiSecret = JStr secret\<rparr> (JStr path) (JStr query) (JNum nonce)
     = Inr (hex_encode (H (utf8_encode secret)
         (utf8_encode (base64_encode (utf8_encode (path @ ''/'' @ show_int nonce @ ''/'' @ query))))))
   \<and> set (hex_encode (H key msg)) \<subseteq> set ''0123456789abcdef''
   \<and> length (hex_encode (H key msg)) = 2 * length (H key msg)
   \<and> getSignature hmac_sha256_std \<lparr>apiKey = k, apiSecret = JStr ''shh''\<rparr>
         (JStr ''bot/info'') (JStr ''botId=42'') (JNum 1700000000000)
     = Inr ''18541cedb5916a3ad812349e27d93305ea5a7601801732d1c49c1accc0c77fd8''
   \<and> getSignature H \<lparr>apiKey = k, apiSecret = JStr ''shh''\<rparr>
         (JStr ''bot/info'') (JStr ''botId=42'') (JNum 1152921504606846976)
     = Inr (hex_encode (H (utf8_encode ''shh'')
         (utf8_encode ''Ym90L2luZm8vMTE1MjkyMTUwNDYwNjg0NzAwMC9ib3RJZD00Mg=='')))"
proof -
  have secret: "apiSecret \<lparr>apiKey = k, apiSecret = JStr s\<rparr> = JStr s" for s
    by simp
  have general: "getSignature H \<lparr>apiKey = k, apiSecret = JStr secret\<rparr> (JStr path) (JStr query) (JNum nonce)
     = Inr (hex_encode (H (utf8_encode secret)
         (utf8_encode (base64_encode (utf8_encode (path @ ''/'' @ show_int nonce @ ''/'' @ query))))))"
    by (simp add: getSignature_secret_only strForSign_def)
  have lower: "set (hex_encode (H key msg)) \<subseteq> set ''0123456789abcdef''"
    using hex_encode_lowercase [of "H key msg"] by (simp only: hex_chars_def)
  have canon: "strForSign (JStr ''bot/info'') (JStr ''botId=42'') (JNum 1700000000000)
     = ''bot/info/1700000000000/botId=42''"
    by (simp add: strForSign_def fixture_decimal)
  have fixture: "getSignature hmac_sha256_std \<lparr>apiKey = k, apiSecret = JStr ''shh''\<rparr>
         (JStr ''bot/info'') (JStr ''botId=42'') (JNum 1700000000000)
     = Inr ''18541cedb5916a3ad812349e27d93305ea5a7601801732d1c49c1accc0c77fd8''"
    by (simp only: getSignature_secret_only [OF secret] canon fixture_base64 fixture_bytes
        fixture_hmac fixture_hex)
  have canon': "strForSign (JStr ''bot/info'') (JStr ''botId=42'') (JNum 1152921504606846976)
     = ''bot/info/1152921504606847000/botId=42''"
    by (simp add: strForSign_def show_int_2_60)
  have beyond: "getSignature H \<lparr>apiKey = k, apiSecret = JStr ''shh''\<rparr>
         (JStr ''bot/info'') (JStr ''botId=42'') (JNum 1152921504606846976)
     = Inr (hex_encode (H (utf8_encode ''shh'')
         (utf8_encode ''Ym90L2luZm8vMTE1MjkyMTUwNDYwNjg0NzAwMC9ib3RJZD00Mg=='')))"
    by (simp only: getSignature_secret_only [OF secret] canon' fixture_base64_2_60)
  from general lower hex_encode_length [of "H key msg"] fixture beyond show ?thesis
    by (intro conjI)
qed

text \<open>
  C4. A call of \<open>getSignature\<close> leaves the machine as it found it, the client's fields
  and the clock alike. A second call with the same path, query and nonce returns what
  the first returned; so does a call on any machine whose client holds the same secret,
  whatever its key and its clock, and so does a call made after any number of requests
  have been dispatched in between.
\<close>

theorem getSignature_deterministic:
  "snd (run_getSignature H path query nonce M) = M
   \<and> fst (run_getSignature H path query nonce (snd (run_getSignature H path query nonce M)))
       = fst (run_getSignature H path query nonce M)
   \<and> (apiSecret (self N) = apiSecret (self M) \<longrightarrow>
        fst (run_getSignature H path query nonce N) = fst (run_getSignature H path query nonce M))
   \<and> fst (run_getSignature H path query nonce (snd (run_all H' net calls M)))
       = fst (run_getSignature H path query nonce M)"
proof -
  obtain outs M' where "run_all H' net calls M = (outs, M')"
    by force
  from run_all_shape [OF this] this have "self (snd (run_all H' net calls M)) = self M"
    by simp
  then show ?thesis
    by (simp add: run_getSignature_def getSignature_def)
qed

theorem getSignature_deterministic_witness:
  "fst (run_getSignature sample_digest (JStr ''bot/info'') (JStr ''botId=42'') (JNum 1700000000000)
         (sample_machine\<lparr>self := sample_client\<lparr>apiKey := JStr ''another key''\<rparr>, reads := 7\<rparr>))
     = Inr ''032cab''"
proof -
  let ?N = "sample_machine\<lparr>self := sample_client\<lparr>apiKey := JStr ''another key''\<rparr>, reads := 7\<rparr>"
  have same: "apiSecret (self ?N) = apiSecret (self sample_machine)"
    by (simp add: sample_machine_def sample_client_def)
  from getSignature_deterministic [of sample_digest "JStr ''bot/info''" "JStr ''botId=42''"
      "JNum 1700000000000" sample_machine ?N] same
  have "fst (run_getSignature sample_digest (JStr ''bot/info'') (JStr ''botId=42'')
          (JNum 1700000000000) ?N)
      = fst (run_getSignature sample_digest (JStr ''bot/info'') (JStr ''botId=42'')
          (JNum 1700000000000) sample_machine)"
    by blast
  then show ?thesis
    by (simp add: run_getSignature_def sample_machine_def sample_signature)
qed

section \<open>The query in the URL and in the signed string\<close>

text \<open>
  C2, as the specification states it, fails: \<open>status()\<close> passes no query, the default makes
  it \<open>null\<close>, and the concatenations print \<open>null\<close>. The URL ends in \<open>?null\<close>, not in \<open>?\<close>,
  and the string that is signed ends in \<open>/null\<close>.
\<close>

theorem absent_query_counterexample:
  "map (\<lambda>c. uri (call_options c))
       (requests (status (sample_runtime (completes_with 200 ''{}'')) sample_client))
     = [''https://api.cryptorg.net/api/status?null'']
   \<and> map (\<lambda>c. uri (call_options c))
       (requests (status (sample_runtime (completes_with 200 ''{}'')) sample_client))
     \<noteq> [apiUrl @ ''api/status'' @ ''?'' @ '''']
   \<and> trace (status (sample_runtime (completes_with 200 ''{}'')) sample_client) ! 1
     = GetSignature (JStr ''api/status'') JNull (JNum 1700000000000)
   \<and> strForSign (JStr ''api/status'') JNull (JNum 1700000000000) = ''api/status/1700000000000/null''"
  by (simp add: sample_status requests_def sample_status_get_def apiUrl_def strForSign_def
      fixture_decimal)

text \<open>
  C2, amended. When the query argument is absent or \<open>null\<close>, the URL of the outbound request
  is \<open>baseUrl + path + "?" + "null"\<close>, and \<open>null\<close> is likewise the query component of the
  string that is signed: \<open>path + "/" + nonce + "/" + "null"\<close>.
\<close>

theorem absent_query_reads_null:
  assumes "query0 = JUndefined \<or> query0 = JNull"
    and "Http c \<in> set (trace (sendRequest R this meth url query0 params0))"
  shows "uri (call_options c) = apiUrl @ js_to_string url @ ''?'' @ ''null''
    \<and> GetSignature url JNull (JNum (getTime R))
        \<in> set (trace (sendRequest R this meth url query0 params0))
    \<and> strForSign url JNull (JNum (getTime R))
        = js_to_string url @ ''/'' @ show_int (getTime R) @ ''/'' @ ''null''"
proof -
  from assms(1) have q: "default_param query0 JNull = JNull"
    by (auto simp: default_param_def)
  from issued_request [OF assms(2)] q
  have "uri (call_options c) = apiUrl @ js_to_string url @ ''?'' @ ''null''" by auto
  moreover from sendRequest_signs [of url query0 R this meth params0] q
  have "GetSignature url JNull (JNum (getTime R))
        \<in> set (trace (sendRequest R this meth url query0 params0))" by simp
  moreover have "strForSign url JNull (JNum (getTime R))
        = js_to_string url @ ''/'' @ show_int (getTime R) @ ''/'' @ ''null''"
    by (simp add: strForSign_def)
  ultimately show ?thesis by blast
qed

theorem absent_query_reads_null_witness:
  "Http sample_status_get \<in> set (trace (sendRequest (sample_runtime (completes_with 200 ''{}''))
       sample_client (JStr ''GET'') (JStr ''api/status'') JUndefined JUndefined))
   \<and> uri (call_options sample_status_get) = ''https://api.cryptorg.net/api/status?null''
   \<and> strForSign (JStr ''api/status'') JNull (JNum 1700000000000) = ''api/status/1700000000000/null''"
proof -
  let ?R = "sample_runtime (completes_with 200 ''{}'')"
  have absent: "JUndefined = JUndefined \<or> JUndefined = JNull" by simp
  have issued: "Http sample_status_get \<in> set (trace (sendRequest ?R sample_client
       (JStr ''GET'') (JStr ''api/status'') JUndefined JUndefined))"
    using sample_status [of "completes_with 200 ''{}''"] by (simp add: status_def)
  from absent_query_reads_null [OF absent issued]
  have "uri (call_options sample_status_get) = apiUrl @ js_to_string (JStr ''api/status'') @ ''?'' @ ''null''"
    and "strForSign (JStr ''api/status'') JNull (JNum (getTime ?R))
        = js_to_string (JStr ''api/status'') @ ''/'' @ show_int (getTime ?R) @ ''/'' @ ''null''"
    by blast+
  then show ?thesis using issued
    by (simp add: apiUrl_def sample_runtime_def fixture_decimal)
qed

text \<open>
  C10. Whatever the query argument is (a string, \<open>null\<close>, absent), the text after the \<open>?\<close>
  of the request's URL is the text that follows the nonce's \<open>/\<close> in the string whose
  base64 encoding the HMAC signs: both are the same coercion of the same value.
\<close>

theorem url_query_is_signed_query:
  assumes "Http c \<in> set (trace (sendRequest R this meth url query0 params0))"
  shows "\<exists>key.
      hmac_key (apiSecret this) = Inr key
    \<and> uri (call_options c)
        = apiUrl @ js_to_string url @ ''?'' @ js_to_string (default_param query0 JNull)
    \<and> map_of (headers (call_options c)) ''CTG-API-SIGNATURE''
        = Some (JStr (hex_encode (hmac_sha256 R key (utf8_encode (base64_encode (utf8_encode
            (js_to_string url @ ''/'' @ show_int (getTime R) @ ''/''
               @ js_to_string (default_param query0 JNull))))))))"
proof -
  from issued_request [OF assms] obtain hash where
    sig: "getSignature (hmac_sha256 R) this url (default_param query0 JNull) (JNum (getTime R)) = Inr hash"
    and hd: "headers (call_options c) =
        [(''CTG-API-SIGNATURE'', JStr hash), (''CTG-API-KEY'', apiKey this),
         (''CTG-API-NONCE'', JNum (getTime R))]"
    and url: "uri (call_options c)
        = apiUrl @ js_to_string url @ ''?'' @ js_to_string (default_param query0 JNull)"
    by blast
  from sig obtain key where key: "hmac_key (apiSecret this) = Inr key"
    and hash: "hash = hex_encode (hmac_sha256 R key (utf8_encode (base64_encode (utf8_encode
            (strForSign url (default_param query0 JNull) (JNum (getTime R)))))))"
    by (auto simp: getSignature_def Let_def split: sum.splits)
  from hd hash have "map_of (headers (call_options c)) ''CTG-API-SIGNATURE''
        = Some (JStr (hex_encode (hmac_sha256 R key (utf8_encode (base64_encode (utf8_encode
            (js_to_string url @ ''/'' @ show_int (getTime R) @ ''/''
               @ js_to_string (default_param query0 JNull))))))))"
    by (simp add: strForSign_def)
  with key url show ?thesis by blast
qed

theorem url_query_is_signed_query_witness:
  "Http sample_status_get \<in> set (trace (status (sample_runtime (completes_with 200 ''{}'')) sample_client))
   \<and> uri (call_options sample_status_get) = ''https://api.cryptorg.net/api/status?'' @ ''null''
   \<and> map_of (headers (call_options sample_status_get)) ''CTG-API-SIGNATURE''
       = Some (JStr (hex_encode (sample_digest (utf8_encode ''shh'')
           (utf8_encode (base64_encode (utf8_encode (''api/status/1700000000000/'' @ ''null'')))))))"
proof -
  let ?R = "sample_runtime (completes_with 200 ''{}'')"
  have issued: "Http sample_status_get \<in> set (trace (sendRequest ?R sample_client
       (JStr ''GET'') (JStr ''api/status'') JUndefined JUndefined))"
    using sample_status [of "completes_with 200 ''{}''"] by (simp add: status_def)
  from url_query_is_signed_query [OF issued] obtain key where
    "hmac_key (apiSecret sample_client) = Inr key"
    and "uri (call_options sample_status_get)
        = apiUrl @ js_to_string (JStr ''api/status'') @ ''?'' @ js_to_string (default_param JUndefined JNull)"
    and "map_of (headers (call_options sample_status_get)) ''CTG-API-SIGNATURE''
        = Some (JStr (hex_encode (hmac_sha256 ?R key (utf8_encode (base64_encode (utf8_encode
            (js_to_string (JStr ''api/status'') @ ''/'' @ show_int (getTime ?R) @ ''/''
               @ js_to_string (default_param JUndefined JNull))))))))"
    by blast
  then show ?thesis using issued
    by (simp add: status_def sample_secret hmac_key_def apiUrl_def default_param_def
        sample_runtime_def fixture_decimal)
qed

section \<open>The request that is issued\<close>

text \<open>
  C5. Every request that \<open>sendRequest\<close> issues carries exactly three headers:
  \<open>CTG-API-SIGNATURE\<close> with the signature that \<open>getSignature\<close> returned for this call,
  \<open>CTG-API-KEY\<close> with the client's key, and \<open>CTG-API-NONCE\<close> with the very nonce that was
  passed to \<open>getSignature\<close>.
\<close>

theorem sendRequest_headers:
  assumes "Http c \<in> set (trace (sendRequest R this meth url query0 params0))"
  shows "\<exists>hash.
      getSignature (hmac_sha256 R) this url (default_param query0 JNull) (JNum (getTime R)) = Inr hash
    \<and> GetSignature url (default_param query0 JNull) (JNum (getTime R))
        \<in> set (trace (sendRequest R this meth url query0 params0))
    \<and> headers (call_options c) =
        [(''CTG-API-SIGNATURE'', JStr hash), (''CTG-API-KEY'', apiKey this),
         (''CTG-API-NONCE'', JNum (getTime R))]"
  using issued_request [OF assms] sendRequest_signs [of url query0 R this meth params0]
  by blast

theorem sendRequest_headers_witness:
  "Http sample_get \<in> set (trace (sendRequest (sample_runtime (completes_with 200 ''{}'')) sample_client
       (JStr ''GET'') (JStr ''bot/info'') (JStr ''botId=42'') JUndefined))
   \<and> headers (call_options sample_get) =
       [(''CTG-API-SIGNATURE'', JStr ''032cab''), (''CTG-API-KEY'', JStr ''key''),
        (''CTG-API-NONCE'', JNum 1700000000000)]"
proof -
  let ?R = "sample_runtime (completes_with 200 ''{}'')"
  have issued: "Http sample_get \<in> set (trace (sendRequest ?R sample_client
       (JStr ''GET'') (JStr ''bot/info'') (JStr ''botId=42'') JUndefined))"
    by (simp add: sample_dispatch)
  from sendRequest_headers [OF issued] obtain hash where
    "getSignature (hmac_sha256 ?R) sample_client (JStr ''bot/info'')
       (default_param (JStr ''botId=42'') JNull) (JNum (getTime ?R)) = Inr hash"
    "headers (call_options sample_get) =
       [(''CTG-API-SIGNATURE'', JStr hash), (''CTG-API-KEY'', apiKey sample_client),
        (''CTG-API-NONCE'', JNum (getTime ?R))]"
    by blast
  then have "headers (call_options sample_get) =
       [(''CTG-API-SIGNATURE'', JStr ''032cab''), (''CTG-API-KEY'', JStr ''key''),
        (''CTG-API-NONCE'', JNum 1700000000000)]"
    by (simp add: sample_runtime_def default_param_def sample_signature sample_client_key)
  with issued show ?thesis by simp
qed

text \<open>
  C6. A GET issues one request whose options hold the headers and no \<open>form\<close>, so no body,
  whatever attributes were passed. A POST issues one request whose \<open>form\<close> is the body
  mapping, for the HTTP library to send form-encoded; its URL is built from the path and
  the query alone, so the mapping is not in it.
\<close>

theorem get_without_body_post_with_form:
  assumes "apiSecret this = JStr secret"
  shows "(\<exists>opts. requests (sendRequest R this (JStr ''GET'') url query0 params0) = [RequestGet opts]
            \<and> form opts = None)
       \<and> (\<exists>opts. requests (sendRequest R this (JStr ''POST'') url query0 params0) = [RequestPost opts]
            \<and> form opts = Some (default_param params0 JNull)
            \<and> uri opts = apiUrl @ js_to_string url @ ''?'' @ js_to_string (default_param query0 JNull))"
proof -
  from string_secret_signs [OF assms] obtain hash where
    sig: "getSignature (hmac_sha256 R) this url (default_param query0 JNull) (JNum (getTime R)) = Inr hash"
    by blast
  have "\<exists>opts. requests (sendRequest R this (JStr ''GET'') url query0 params0) = [RequestGet opts]
            \<and> form opts = None"
    by (simp add: sendRequest_get [OF sig] Let_def requests_def)
  moreover have "\<exists>opts. requests (sendRequest R this (JStr ''POST'') url query0 params0) = [RequestPost opts]
            \<and> form opts = Some (default_param params0 JNull)
            \<and> uri opts = apiUrl @ js_to_string url @ ''?'' @ js_to_string (default_param query0 JNull)"
    by (simp add: sendRequest_post [OF sig] Let_def requests_def)
  ultimately show ?thesis by blast
qed

theorem get_without_body_post_with_form_witness:
  "map (\<lambda>c. form (call_options c))
       (requests (sendRequest (sample_runtime (completes_with 200 ''{}'')) sample_client (JStr ''GET'')
         (JStr ''bot/create'') (JStr ''pair=BTC_USDT&exchange=binance'') sample_attributes))
     = [None]
   \<and> requests (sendRequest (sample_runtime (completes_with 200 ''{}'')) sample_client (JStr ''POST'')
       (JStr ''bot/create'') (JStr ''pair=BTC_USDT&exchange=binance'') sample_attributes)
     = [sample_post]"
proof -
  let ?R = "sample_runtime (completes_with 200 ''{}'')"
  from get_without_body_post_with_form [OF sample_secret, of ?R "JStr ''bot/create''"
      "JStr ''pair=BTC_USDT&exchange=binance''" sample_attributes]
  obtain opts where
    "requests (sendRequest ?R sample_client (JStr ''GET'') (JStr ''bot/create'')
       (JStr ''pair=BTC_USDT&exchange=binance'') sample_attributes) = [RequestGet opts]"
    and "form opts = None"
    by blast
  then show ?thesis by (simp add: sample_create requests_def)
qed

text \<open>
  C7. For a GET or a POST, the promise resolves with the response body as soon as the
  HTTP library reports a completed exchange, whatever the status code, which is never
  looked at; and it rejects with an error exactly when the HTTP library reports that
  error.
\<close>

theorem promise_follows_callback:
  assumes "meth = JStr ''GET'' \<or> meth = JStr ''POST''" and "apiSecret this = JStr secret"
  shows "\<exists>c. requests (sendRequest R this meth url query0 params0) = [c]
       \<and> (\<forall>a. request R c = Some a \<and> err a = None
              \<longrightarrow> result (sendRequest R this meth url query0 params0) = Inr (Resolved (body a)))
       \<and> (\<forall>e. result (sendRequest R this meth url query0 params0) = Inr (Rejected e)
              \<longleftrightarrow> (\<exists>a. request R c = Some a \<and> err a = Some e))"
proof -
  from string_secret_signs [OF assms(2)] obtain hash where
    sig: "getSignature (hmac_sha256 R) this url (default_param query0 JNull) (JNum (getTime R)) = Inr hash"
    by blast
  have settled: "\<And>r. (\<forall>a. r = Some a \<and> err a = None \<longrightarrow> settle r = Resolved (body a))
       \<and> (\<forall>e. settle r = Rejected e \<longleftrightarrow> (\<exists>a. r = Some a \<and> err a = Some e))"
    by (auto simp: settle_def callback_def split: option.splits)
  from assms(1) show ?thesis
  proof
    assume "meth = JStr ''GET''"
    then show ?thesis
      using settled by (simp add: sendRequest_get [OF sig] Let_def requests_def)
  next
    assume "meth = JStr ''POST''"
    then show ?thesis
      using settled by (simp add: sendRequest_post [OF sig] Let_def requests_def)
  qed
qed

theorem promise_follows_callback_witness:
  "result (sendRequest (sample_runtime (completes_with 500 ''Internal Server Error'')) sample_client
       (JStr ''GET'') (JStr ''bot/info'') (JStr ''botId=42'') JUndefined)
     = Inr (Resolved (JStr ''Internal Server Error''))
   \<and> result (sendRequest (sample_runtime (fails_with ''ECONNREFUSED'')) sample_client
       (JStr ''GET'') (JStr ''bot/info'') (JStr ''botId=42'') JUndefined)
     = Inr (Rejected (Error ''ECONNREFUSED''))"
proof -
  let ?ok = "sample_runtime (completes_with 500 ''Internal Server Error'')"
  let ?down = "sample_runtime (fails_with ''ECONNREFUSED'')"
  have get: "JStr ''GET'' = JStr ''GET'' \<or> JStr ''GET'' = JStr ''POST''" by simp
  from promise_follows_callback [OF get sample_secret, of ?ok "JStr ''bot/info''" "JStr ''botId=42''" JUndefined]
  obtain c where resolves: "\<And>a. request ?ok c = Some a \<and> err a = None \<Longrightarrow>
        result (sendRequest ?ok sample_client (JStr ''GET'') (JStr ''bot/info'')
          (JStr ''botId=42'') JUndefined) = Inr (Resolved (body a))"
    by blast
  have "request ?ok c = Some \<lparr>err = None, resp = Some 500, body = JStr ''Internal Server Error''\<rparr>"
    by (simp add: sample_runtime_def completes_with_def)
  from resolves [of "\<lparr>err = None, resp = Some 500, body = JStr ''Internal Server Error''\<rparr>"] this
  have first: "result (sendRequest ?ok sample_client (JStr ''GET'') (JStr ''bot/info'')
        (JStr ''botId=42'') JUndefined) = Inr (Resolved (JStr ''Internal Server Error''))"
    by simp
  from promise_follows_callback [OF get sample_secret, of ?down "JStr ''bot/info''" "JStr ''botId=42''" JUndefined]
  obtain d where rejects: "\<And>e. (\<exists>a. request ?down d = Some a \<and> err a = Some e) \<Longrightarrow>
        result (sendRequest ?down sample_client (JStr ''GET'') (JStr ''bot/info'')
          (JStr ''botId=42'') JUndefined) = Inr (Rejected e)"
    by blast
  have "\<exists>a. request ?down d = Some a \<and> err a = Some (Error ''ECONNREFUSED'')"
    by (simp add: sample_runtime_def fails_with_def)
  from rejects [OF this] first show ?thesis by simp
qed

text \<open>
  C8. Each call of \<open>sendRequest\<close> reads the clock exactly once: after any sequence of
  calls the clock has been read once per call, the \<open>k\<close>-th call having taken the \<open>k\<close>-th
  reading. Every request that the \<open>k\<close>-th call issues carries that reading as its nonce
  and the signature that \<open>getSignature\<close> returns for that very reading: no signature is
  taken over from another call, and none is computed from anything but the call's own
  nonce. A GET or a POST with a usable secret issues exactly one such request.
\<close>

theorem one_nonce_one_signature:
  assumes "run_all H net calls M = (outs, M')" and "k < length calls"
  shows "M' = M\<lparr>reads := reads M + length calls\<rparr>
     \<and> length outs = length calls
     \<and> snd (run_sendRequest H net (calls ! k) M) = M\<lparr>reads := Suc (reads M)\<rparr>
     \<and> (\<forall>c. Http c \<in> set (trace (outs ! k)) \<longrightarrow>
          (\<exists>hash.
              getSignature H (self M) (call_url (calls ! k))
                (default_param (call_query (calls ! k)) JNull) (JNum (clock M (reads M + k)))
                = Inr hash
            \<and> headers (call_options c) =
                [(''CTG-API-SIGNATURE'', JStr hash), (''CTG-API-KEY'', apiKey (self M)),
                 (''CTG-API-NONCE'', JNum (clock M (reads M + k)))]))
     \<and> ((call_method (calls ! k) = JStr ''GET'' \<or> call_method (calls ! k) = JStr ''POST'')
          \<and> (\<exists>secret. apiSecret (self M) = JStr secret)
          \<longrightarrow> length (requests (outs ! k)) = 1)"
proof -
  let ?R = "\<lparr>hmac_sha256 = H, getTime = clock M (reads M + k), request = net\<rparr>"
  from run_all_shape [OF assms(1)] assms(2) have
    M': "M' = M\<lparr>reads := reads M + length calls\<rparr>" and len: "length outs = length calls"
    and out: "outs ! k = sendRequest ?R (self M)
           (call_method (calls ! k)) (call_url (calls ! k)) (call_query (calls ! k))
           (call_params (calls ! k))"
    by simp_all
  have headers: "\<exists>hash.
              getSignature H (self M) (call_url (calls ! k))
                (default_param (call_query (calls ! k)) JNull) (JNum (clock M (reads M + k)))
                = Inr hash
            \<and> headers (call_options c) =
                [(''CTG-API-SIGNATURE'', JStr hash), (''CTG-API-KEY'', apiKey (self M)),
                 (''CTG-API-NONCE'', JNum (clock M (reads M + k)))]"
    if "Http c \<in> set (trace (outs ! k))" for c
  proof -
    from that out have "Http c \<in> set (trace (sendRequest ?R (self M)
           (call_method (calls ! k)) (call_url (calls ! k)) (call_query (calls ! k))
           (call_params (calls ! k))))" by simp
    from issued_request [OF this] show ?thesis by auto
  qed
  have one: "length (requests (outs ! k)) = 1"
    if "call_method (calls ! k) = JStr ''GET'' \<or> call_method (calls ! k) = JStr ''POST''"
      and "\<exists>secret. apiSecret (self M) = JStr secret"
  proof -
    from that(2) obtain secret where "apiSecret (self M) = JStr secret" by blast
    from string_secret_signs [OF this] obtain hash where
      sig: "getSignature (hmac_sha256 ?R) (self M) (call_url (calls ! k))
              (default_param (call_query (calls ! k)) JNull) (JNum (getTime ?R)) = Inr hash"
      by blast
    from that(1) show ?thesis
    proof
      assume "call_method (calls ! k) = JStr ''GET''"
      then show ?thesis
        by (simp add: out sendRequest_get [OF sig] Let_def requests_def)
    next
      assume "call_method (calls ! k) = JStr ''POST''"
      then show ?thesis
        by (simp add: out sendRequest_post [OF sig] Let_def requests_def)
    qed
  qed
  from M' len headers one show ?thesis
    by (simp add: run_sendRequest_shape)
qed

theorem one_nonce_one_signature_witness:
  "reads (snd (run_all hmac_sha256_std (completes_with 200 ''{}'') [sample_call, sample_call]
       sample_machine)) = 2
   \<and> map (\<lambda>c. headers (call_options c))
       (requests (fst (run_all hmac_sha256_std (completes_with 200 ''{}'') [sample_call, sample_call]
          sample_machine) ! 1))
     = [[(''CTG-API-SIGNATURE'',
           JStr (hex_encode (hmac_sha256_std (utf8_encode ''shh'') (utf8_encode (base64_encode
             (utf8_encode ''bot/info/1700000000001/botId=42'')))))),
         (''CTG-API-KEY'', JStr ''key''),
         (''CTG-API-NONCE'', JNum 1700000000001)]]"
proof -
  let ?calls = "[sample_call, sample_call]"
  obtain outs M' where run:
    "run_all hmac_sha256_std (completes_with 200 ''{}'') ?calls sample_machine = (outs, M')"
    by force
  have k: "1 < length ?calls" by simp
  have second: "?calls ! 1 = sample_call" by simp
  from one_nonce_one_signature [OF run k] have
    M': "M' = sample_machine\<lparr>reads := reads sample_machine + length ?calls\<rparr>"
    and signed: "\<And>c. Http c \<in> set (trace (outs ! 1)) \<Longrightarrow>
          \<exists>hash.
              getSignature hmac_sha256_std (self sample_machine) (call_url (?calls ! 1))
                (default_param (call_query (?calls ! 1)) JNull)
                (JNum (clock sample_machine (reads sample_machine + 1))) = Inr hash
            \<and> headers (call_options c) =
                [(''CTG-API-SIGNATURE'', JStr hash), (''CTG-API-KEY'', apiKey (self sample_machine)),
                 (''CTG-API-NONCE'', JNum (clock sample_machine (reads sample_machine + 1)))]"
    and one: "(call_method (?calls ! 1) = JStr ''GET'' \<or> call_method (?calls ! 1) = JStr ''POST'')
          \<and> (\<exists>secret. apiSecret (self sample_machine) = JStr secret)
          \<longrightarrow> length (requests (outs ! 1)) = 1"
    by blast+
  have "length (requests (outs ! 1)) = 1"
    using one by (simp add: sample_call_def sample_machine_def sample_client_def)
  then obtain c where c: "requests (outs ! 1) = [c]"
    by (cases "requests (outs ! 1)") simp_all
  then have "Http c \<in> set (trace (outs ! 1))"
    using requests_trace [of c "outs ! 1"] by simp
  from signed [OF this] obtain hash where
    sig: "getSignature hmac_sha256_std (self sample_machine) (call_url (?calls ! 1))
                (default_param (call_query (?calls ! 1)) JNull)
                (JNum (clock sample_machine (reads sample_machine + 1))) = Inr hash"
    and hd: "headers (call_options c) =
                [(''CTG-API-SIGNATURE'', JStr hash), (''CTG-API-KEY'', apiKey (self sample_machine)),
                 (''CTG-API-NONCE'', JNum (clock sample_machine (reads sample_machine + 1)))]"
    by blast
  have now: "clock sample_machine (reads sample_machine + 1) = 1700000000001"
    "clock sample_machine (Suc (reads sample_machine)) = 1700000000001"
    by (simp_all add: sample_machine_def sample_clock_def)
  have secret: "apiSecret (self sample_machine) = JStr ''shh''"
    and key: "apiKey (self sample_machine) = JStr ''key''"
    by (simp_all add: sample_machine_def sample_client_def)
  from sig have "hash = hex_encode (hmac_sha256_std (utf8_encode ''shh'') (utf8_encode (base64_encode
             (utf8_encode ''bot/info/1700000000001/botId=42''))))"
    by (simp add: getSignature_secret_only [OF secret] now sample_call_def default_param_def
        strForSign_def fixture_decimal_next)
  with hd have hd': "headers (call_options c) =
      [(''CTG-API-SIGNATURE'',
         JStr (hex_encode (hmac_sha256_std (utf8_encode ''shh'') (utf8_encode (base64_encode
           (utf8_encode ''bot/info/1700000000001/botId=42'')))))),
       (''CTG-API-KEY'', JStr ''key''),
       (''CTG-API-NONCE'', JNum 1700000000001)]"
    by (simp add: now key)
  have count: "reads M' = 2"
    using M' by (simp add: sample_machine_def)
  have r1: "snd (run_all hmac_sha256_std (completes_with 200 ''{}'') ?calls sample_machine) = M'"
    and r2: "fst (run_all hmac_sha256_std (completes_with 200 ''{}'') ?calls sample_machine) = outs"
    using run by simp_all
  show ?thesis
    unfolding r1 r2 using count c hd' by simp
qed

section \<open>Unsupported methods and unchecked credentials\<close>

text \<open>
  C3. A method other than \<open>GET\<close> and \<open>POST\<close> should make the promise reject. The promise's
  executor has a branch for \<open>GET\<close>, a branch for \<open>POST\<close> and no \<open>else\<close>: for any other
  method, with a usable secret, the nonce is read and the signature computed, no request
  is issued, and the promise that is returned stays pending for ever.
\<close>

theorem unsupported_method_stays_pending:
  assumes "meth \<noteq> JStr ''GET''" and "meth \<noteq> JStr ''POST''" and "apiSecret this = JStr secret"
  shows "sendRequest R this meth url query0 params0
     = \<lparr>result = Inr Pending,
        trace = [GetTime (getTime R),
                 GetSignature url (default_param query0 JNull) (JNum (getTime R))]\<rparr>"
proof -
  from string_secret_signs [OF assms(3)] obtain hash where
    "getSignature (hmac_sha256 R) this url (default_param query0 JNull) (JNum (getTime R)) = Inr hash"
    by blast
  from sendRequest_other [OF this assms(1,2)] show ?thesis .
qed

theorem unsupported_method_stays_pending_witness:
  "result (sendRequest (sample_runtime (completes_with 200 ''{}'')) sample_client
       (JStr ''PUT'') (JStr ''bot/info'') (JStr ''botId=42'') JUndefined) = Inr Pending
   \<and> requests (sendRequest (sample_runtime (completes_with 200 ''{}'')) sample_client
       (JStr ''PUT'') (JStr ''bot/info'') (JStr ''botId=42'') JUndefined) = []"
proof -
  have "JStr ''PUT'' \<noteq> JStr ''GET''" and "JStr ''PUT'' \<noteq> JStr ''POST''" by simp_all
  from unsupported_method_stays_pending [OF this sample_secret]
  show ?thesis by (simp add: requests_def)
qed

text \<open>
  C9, as the specification states it, fails: the constructor accepts missing credentials
  and empty ones alike, and a client built with an empty key and an empty secret
  dispatches like any other.
\<close>

theorem empty_credentials_counterexample:
  "new_CryptorgApi JUndefined JUndefined = Inr \<lparr>apiKey = JUndefined, apiSecret = JUndefined\<rparr>
   \<and> new_CryptorgApi (JStr '''') (JStr '''') = Inr empty_client
   \<and> map (\<lambda>c. (uri (call_options c), map_of (headers (call_options c)) ''CTG-API-KEY''))
       (requests (status (sample_runtime (completes_with 200 ''{}'')) empty_client))
       = [(''https://api.cryptorg.net/api/status?null'', Some (JStr ''''))]
   \<and> result (status (sample_runtime (completes_with 200 ''{}'')) empty_client)
       = Inr (Resolved (JStr ''{}''))"
  by (simp add: new_CryptorgApi_def empty_client_def [symmetric] empty_status requests_def
      empty_status_get_def settle_def callback_def completes_with_def)

text \<open>
  C9, amended. Constructing a client never fails: the constructor stores the key and the
  secret it is given, missing or empty ones included, and checks nothing. A dispatcher
  with invalid credentials therefore exists: a client built with an empty key and an
  empty secret issues its requests, with an empty \<open>CTG-API-KEY\<close>.
\<close>

theorem constructor_stores_unchecked:
  "new_CryptorgApi key secret = Inr \<lparr>apiKey = key, apiSecret = secret\<rparr>
   \<and> (\<exists>opts. requests (botList R \<lparr>apiKey = JStr '''', apiSecret = JStr ''''\<rparr>) = [RequestGet opts]
         \<and> map_of (headers opts) ''CTG-API-KEY'' = Some (JStr ''''))"
proof -
  have "apiSecret \<lparr>apiKey = JStr '''', apiSecret = JStr ''''\<rparr> = JStr ''''" by simp
  from string_secret_signs [OF this] obtain hash where
    sig: "getSignature (hmac_sha256 R) \<lparr>apiKey = JStr '''', apiSecret = JStr ''''\<rparr> (JStr ''bot/all'')
            (default_param JUndefined JNull) (JNum (getTime R)) = Inr hash"
    by blast
  have "\<exists>opts. requests (botList R \<lparr>apiKey = JStr '''', apiSecret = JStr ''''\<rparr>) = [RequestGet opts]
         \<and> map_of (headers opts) ''CTG-API-KEY'' = Some (JStr '''')"
    by (simp add: botList_def sendRequest_get [OF sig] Let_def requests_def)
  then show ?thesis by (simp add: new_CryptorgApi_def)
qed

end
